theory Spec2Isabelle
  imports Complex_Main "HOL-Library.Sublist"
begin

chapter \<open>The batch pipeline of Expression\_Spanish: prepare, execute, generate results\<close>

text \<open>
  The three scripts of the repository are embedded function by function. Files are
  values of an explicit world that every operation takes and returns; exceptions are
  values of a sum type; loops are recursive functions or folds over the list the source
  iterates. A Python character is a \<^typ>\<open>char\<close>, so the model speaks about text
  whose code points are below 256 (which covers the Spanish prompts of the repository).
\<close>

section \<open>Python values\<close>

datatype py_error =
    FileNotFoundError
  | PermissionError
  | KeyError
  | ValueError
  | TypeError
  | RemoteError

text \<open>
  \<^verbatim>\<open>str.isspace\<close> on the code points below 256: tab to carriage return, the four
  separators 28 to 31, space, next line (133) and no-break space (160).
\<close>

definition isspace :: "char \<Rightarrow> bool" where
  "isspace c = (of_char c \<in> {9, 10, 11, 12, 13, 28, 29, 30, 31, 32, 133, 160 :: nat})"

text \<open>\<^verbatim>\<open>s.strip()\<close> and \<^verbatim>\<open>s.strip(chars)\<close>.\<close>

definition strip :: "string \<Rightarrow> string" where
  "strip s = rev (dropWhile isspace (rev (dropWhile isspace s)))"

definition strip_chars :: "string \<Rightarrow> string \<Rightarrow> string" where
  "strip_chars cs s =
     rev (dropWhile (\<lambda>c. c \<in> set cs) (rev (dropWhile (\<lambda>c. c \<in> set cs) s)))"

text \<open>\<^verbatim>\<open>os.path.join(a, b)\<close> on a POSIX system, for two components.\<close>

definition os_path_join :: "string \<Rightarrow> string \<Rightarrow> string" where
  "os_path_join a b =
     (if b \<noteq> [] \<and> hd b = CHR ''/'' then b
      else if a = [] \<or> last a = CHR ''/'' then a @ b
      else a @ ''/'' @ b)"

text \<open>\<^verbatim>\<open>get_experiment_paths\<close> of utils.py: the sub-folders the scripts use.\<close>

definition batches_dir :: "string \<Rightarrow> string" where
  "batches_dir experiment_path = os_path_join experiment_path ''batches''"

definition results_dir :: "string \<Rightarrow> string" where
  "results_dir experiment_path = os_path_join experiment_path ''results''"

definition prompts_dir :: "string \<Rightarrow> string" where
  "prompts_dir experiment_path = os_path_join experiment_path ''prompts''"


text \<open>
  A text file is the list of its lines, without the line terminators: every write of
  the scripts ends its line, and a name written on a line holds no line break.
  \<^verbatim>\<open>[line.strip() for line in f if line.strip()]\<close> reads the names of a registry.
\<close>

definition read_names :: "string list \<Rightarrow> string list" where
  "read_names file_lines = filter (\<lambda>l. l \<noteq> []) (map strip file_lines)"

section \<open>execute\_experiment.py: the tracking store\<close>

record tracking_row =
  experiment_name :: string
  batch_file :: string
  batch_id :: string
  status :: string
  timestamp :: string
  file_hash :: string

text \<open>
  A data frame of the tracking table: its column labels and its rows. The cells are
  strings, and a stored sheet carries the six columns the rows have, so that
  \<^verbatim>\<open>df.empty\<close> and \<^verbatim>\<open>len(df) == 0\<close> both say that there is no row.
\<close>

record dataframe =
  columns :: "string list"
  rows :: "tracking_row list"

definition tracking_columns :: "string list" where
  "tracking_columns =
     [''experiment_name'', ''batch_file'', ''batch_id'', ''status'', ''timestamp'', ''file_hash'']"

definition empty_tracking :: dataframe where
  "empty_tracking = \<lparr>columns = tracking_columns, rows = []\<rparr>"

text \<open>
  What is at results/batch\_tracking.xlsx: nothing, a file that pandas cannot read, or a
  sheet.
\<close>

datatype stored_sheet = Missing | Unreadable | Sheet dataframe

text \<open>
  The world of the execute stage: the byte files by path (batch files, downloaded
  results), the tracking sheet, and failed\_experiments/failed\_execute\_exp.txt. Writes
  succeed; a read fails where the file is missing or unreadable.
\<close>

record world =
  files :: "string \<Rightarrow> string option"
  tracking :: stored_sheet
  failed_execute :: "string list option"

definition read_excel :: "stored_sheet \<Rightarrow> py_error + dataframe" where
  "read_excel f =
     (case f of
        Missing \<Rightarrow> Inl FileNotFoundError
      | Unreadable \<Rightarrow> Inl ValueError
      | Sheet df \<Rightarrow> Inr df)"

definition load_batch_tracking :: "world \<Rightarrow> dataframe" where
  "load_batch_tracking w =
     (if tracking w \<noteq> Missing then
        (case read_excel (tracking w) of
           Inr df \<Rightarrow> df
         | Inl e \<Rightarrow> empty_tracking)
      else empty_tracking)"

definition save_batch_tracking :: "dataframe \<Rightarrow> world \<Rightarrow> world" where
  "save_batch_tracking df w = w\<lparr>tracking := Sheet df\<rparr>"

text \<open>
  The read loop of \<^verbatim>\<open>get_file_hash\<close>: chunks of 8192 bytes are fed to the digest
  until a read returns nothing. The digest's state is the bytes fed so far.
\<close>

function read_chunks :: "string \<Rightarrow> string \<Rightarrow> string" where
  "read_chunks fed rest =
     (let chunk = take 8192 rest
      in if chunk = [] then fed else read_chunks (fed @ chunk) (drop 8192 rest))"
  by pat_completeness auto
termination
  by (relation "measure (\<lambda>(fed, rest). length rest)") (auto simp: Let_def)

declare read_chunks.simps [simp del]

text \<open>
  \<^verbatim>\<open>hashlib.md5\<close> is a parameter \<open>md5\<close>, from the bytes fed to the hex digest. The
  name is opened as given when a file of that name exists, and inside the batches
  folder otherwise; \<^verbatim>\<open>open\<close> raises when there is no such file.
\<close>

definition full_path :: "string \<Rightarrow> string \<Rightarrow> world \<Rightarrow> string" where
  "full_path experiment_path file_path w =
     (if files w file_path = None
      then os_path_join (batches_dir experiment_path) file_path
      else file_path)"

definition get_file_hash ::
  "(string \<Rightarrow> string) \<Rightarrow> string \<Rightarrow> string \<Rightarrow> world \<Rightarrow> py_error + string" where
  "get_file_hash md5 experiment_path file_path w =
     (case files w (full_path experiment_path file_path w) of
        None \<Rightarrow> Inl FileNotFoundError
      | Some data \<Rightarrow> Inr (md5 (read_chunks [] data)))"

definition add_batch_to_tracking ::
  "(string \<Rightarrow> string) \<Rightarrow> string \<Rightarrow> string \<Rightarrow> string \<Rightarrow> string \<Rightarrow> string \<Rightarrow> world
     \<Rightarrow> py_error + world" where
  "add_batch_to_tracking md5 now experiment_path name file job w =
     (let df = load_batch_tracking w
      in case get_file_hash md5 experiment_path file w of
           Inl e \<Rightarrow> Inl e
         | Inr h \<Rightarrow>
             (let new_row = \<lparr>experiment_name = name, batch_file = file, batch_id = job,
                              status = ''submitted'', timestamp = now, file_hash = h\<rparr>
              in Inr (save_batch_tracking (df\<lparr>rows := rows df @ [new_row]\<rparr>) w)))"

definition update_batch_status :: "string \<Rightarrow> string \<Rightarrow> world \<Rightarrow> world" where
  "update_batch_status job new_status w =
     (let df = load_batch_tracking w
      in save_batch_tracking
           (df\<lparr>rows := map (\<lambda>r. if batch_id r = job then r\<lparr>status := new_status\<rparr> else r)
                            (rows df)\<rparr>) w)"

definition remove_batch_from_tracking :: "string \<Rightarrow> world \<Rightarrow> world" where
  "remove_batch_from_tracking job w =
     (let df = load_batch_tracking w
      in save_batch_tracking (df\<lparr>rows := filter (\<lambda>r. batch_id r \<noteq> job) (rows df)\<rparr>) w)"

definition cleanup_empty_tracking_file :: "world \<Rightarrow> bool \<times> world" where
  "cleanup_empty_tracking_file w =
     (if tracking w \<noteq> Missing then
        (let df = load_batch_tracking w
         in if length (rows df) = 0 then (True, w\<lparr>tracking := Missing\<rparr>) else (False, w))
      else (True, w))"

text \<open>
  The loop of \<^verbatim>\<open>get_batches_to_send\<close> over the candidate files, with the list
  \<^verbatim>\<open>batches_to_send\<close> as accumulator; an exception of \<^verbatim>\<open>get_file_hash\<close> leaves
  the function.
\<close>

fun batches_to_send_loop ::
  "(string \<Rightarrow> string) \<Rightarrow> string \<Rightarrow> world \<Rightarrow> tracking_row list \<Rightarrow> string list \<Rightarrow> string list
     \<Rightarrow> py_error + string list" where
  "batches_to_send_loop md5 experiment_path w existing_batches [] batches_to_send =
     Inr batches_to_send"
| "batches_to_send_loop md5 experiment_path w existing_batches (file # others) batches_to_send =
     (case get_file_hash md5 experiment_path file w of
        Inl e \<Rightarrow> Inl e
      | Inr h \<Rightarrow>
          (let existing = filter (\<lambda>r. batch_file r = file \<and> file_hash r = h) existing_batches
           in if existing = []
              then batches_to_send_loop md5 experiment_path w existing_batches others
                     (batches_to_send @ [file])
              else batches_to_send_loop md5 experiment_path w existing_batches others
                     batches_to_send))"

definition get_batches_to_send ::
  "(string \<Rightarrow> string) \<Rightarrow> string \<Rightarrow> string \<Rightarrow> string list \<Rightarrow> world \<Rightarrow> py_error + string list" where
  "get_batches_to_send md5 experiment_path name batch_files w =
     (let df = load_batch_tracking w;
          existing_batches = filter (\<lambda>r. experiment_name r = name) (rows df)
      in batches_to_send_loop md5 experiment_path w existing_batches batch_files [])"

section \<open>execute\_experiment.py: the registry of failed experiments\<close>

definition add_failed_experiment_to_list :: "string \<Rightarrow> world \<Rightarrow> world" where
  "add_failed_experiment_to_list name w =
     (let existing_failed =
            (case failed_execute w of None \<Rightarrow> [] | Some file_lines \<Rightarrow> read_names file_lines)
      in if name \<notin> set existing_failed
         then w\<lparr>failed_execute :=
                  Some ((case failed_execute w of None \<Rightarrow> [] | Some file_lines \<Rightarrow> file_lines)
                        @ [name])\<rparr>
         else w)"

definition save_failed_experiment_info :: "string \<Rightarrow> world \<Rightarrow> world" where
  "save_failed_experiment_info name w = add_failed_experiment_to_list name w"

definition get_failed_experiments_list :: "world \<Rightarrow> string list" where
  "get_failed_experiments_list w =
     (case failed_execute w of None \<Rightarrow> [] | Some file_lines \<Rightarrow> read_names file_lines)"

definition remove_experiment_from_failed_list :: "string \<Rightarrow> world \<Rightarrow> world" where
  "remove_experiment_from_failed_list name w =
     (case failed_execute w of
        None \<Rightarrow> w
      | Some file_lines \<Rightarrow>
          (let experiments = read_names file_lines;
               updated_experiments = filter (\<lambda>exp. exp \<noteq> name) experiments
           in if updated_experiments \<noteq> []
              then w\<lparr>failed_execute := Some updated_experiments\<rparr>
              else w\<lparr>failed_execute := None\<rparr>))"

section \<open>execute\_experiment.py: the reconciliation pass\<close>

text \<open>
  The remote batch API, as the two calls the poller makes: the job of an id (its status
  and its output file), and the content of a file. Either call may raise.
\<close>

record batch_info =
  job_status :: string
  output_file_id :: string

record client =
  batches_retrieve :: "string \<Rightarrow> py_error + batch_info"
  files_content :: "string \<Rightarrow> py_error + string"

definition result_path :: "string \<Rightarrow> string \<Rightarrow> string \<Rightarrow> string \<Rightarrow> string" where
  "result_path experiment_path name job date_string =
     os_path_join (results_dir experiment_path)
       (name @ ''_results_'' @ job @ ''_'' @ date_string @ ''.jsonl'')"

text \<open>The download of a completed job; an exception of the fetch is caught and logged.\<close>

definition download_completed ::
  "client \<Rightarrow> string \<Rightarrow> string \<Rightarrow> tracking_row \<Rightarrow> batch_info \<Rightarrow> world \<Rightarrow> world" where
  "download_completed api experiment_path date_string row info w =
     (case files_content api (output_file_id info) of
        Inl e \<Rightarrow> w
      | Inr result \<Rightarrow>
          (let save_path =
                 result_path experiment_path (experiment_name row) (batch_id row) date_string;
               w1 = w\<lparr>files := (files w)(save_path \<mapsto> result)\<rparr>;
               w2 = remove_batch_from_tracking (batch_id row) w1
           in remove_experiment_from_failed_list (experiment_name row) w2))"

text \<open>The body of the loop over the pending rows; a failed status query skips the row.\<close>

definition check_row :: "client \<Rightarrow> string \<Rightarrow> string \<Rightarrow> tracking_row \<Rightarrow> world \<Rightarrow> world" where
  "check_row api experiment_path date_string row w =
     (case batches_retrieve api (batch_id row) of
        Inl e \<Rightarrow> w
      | Inr info \<Rightarrow>
          (let new_status = job_status info;
               w1 = (if new_status \<noteq> status row
                     then update_batch_status (batch_id row) new_status w else w)
           in if new_status = ''completed''
              then download_completed api experiment_path date_string row info w1
              else if new_status \<in> set [''failed'', ''cancelled'']
              then remove_batch_from_tracking (batch_id row)
                     (save_failed_experiment_info (experiment_name row) w1)
              else w1))"

definition pending_batches :: "dataframe \<Rightarrow> tracking_row list" where
  "pending_batches company_batches =
     filter (\<lambda>r. status r \<notin> set [''downloaded'', ''failed'']) (rows company_batches)"

text \<open>
  \<^verbatim>\<open>openai_login()\<close> gives the client or raises, which ends the pass at once. The rows
  are those of the frame the caller loaded; the table itself is read and written in the
  world at every step.
\<close>

definition check_and_download_openai_batches ::
  "py_error + client \<Rightarrow> string \<Rightarrow> string \<Rightarrow> dataframe \<Rightarrow> world \<Rightarrow> world" where
  "check_and_download_openai_batches login experiment_path date_string company_batches w =
     (case login of
        Inl e \<Rightarrow> w
      | Inr api \<Rightarrow>
          fold (check_row api experiment_path date_string) (pending_batches company_batches) w)"

definition check_and_download_pending_batches ::
  "py_error + client \<Rightarrow> string \<Rightarrow> string \<Rightarrow> world \<Rightarrow> world" where
  "check_and_download_pending_batches login experiment_path date_string w =
     (if tracking w = Missing then w
      else
        (let df = load_batch_tracking w
         in if rows df = [] then w
            else snd (cleanup_empty_tracking_file
                        (check_and_download_openai_batches login experiment_path date_string
                           df w))))"

section \<open>prepare\_experiment.py: prompts and tasks\<close>

text \<open>\<^verbatim>\<open>str(n)\<close> for a natural number: its decimal digits.\<close>

definition digit_char :: "nat \<Rightarrow> char" where
  "digit_char n = char_of (48 + n)"

function str_nat :: "nat \<Rightarrow> string" where
  "str_nat n = (if n < 10 then [digit_char n] else str_nat (n div 10) @ [digit_char (n mod 10)])"
  by pat_completeness auto
termination
  by (relation "measure id") auto

declare str_nat.simps [simp del]

text \<open>
  \<^verbatim>\<open>re.search(r'\[([^\]]+)\]', s)\<close>, giving group 1 of the leftmost match: at an
  opening bracket the class takes every character up to the next closing bracket, and
  the match needs at least one such character and the closing bracket itself.
\<close>

fun search_placeholder :: "string \<Rightarrow> string option" where
  "search_placeholder [] = None"
| "search_placeholder (c # cs) =
     (if c = CHR ''[''
      then (let inner = takeWhile (\<lambda>x. x \<noteq> CHR '']'') cs
            in if inner \<noteq> [] \<and> length inner < length cs then Some inner
               else search_placeholder cs)
      else search_placeholder cs)"

text \<open>
  \<^verbatim>\<open>s.replace(old, new)\<close>: every occurrence of \<open>old\<close>, found from the left without
  overlap; an empty \<open>old\<close> matches before every character and at the end.
\<close>

function replace_occurrences :: "string \<Rightarrow> string \<Rightarrow> string \<Rightarrow> string" where
  "replace_occurrences old new s =
     (if old = [] \<or> s = [] then s
      else if prefix old s then new @ replace_occurrences old new (drop (length old) s)
      else hd s # replace_occurrences old new (tl s))"
  by pat_completeness auto
termination
  by (relation "measure (\<lambda>(old, new, s). length s)") auto

declare replace_occurrences.simps [simp del]

definition str_replace :: "string \<Rightarrow> string \<Rightarrow> string \<Rightarrow> string" where
  "str_replace s old new =
     (if old = [] then new @ concat (map (\<lambda>c. c # new) s)
      else replace_occurrences old new s)"

text \<open>
  A task of the batch file: the request envelope with its body and its one user
  message.
\<close>

record message =
  role :: string
  content :: string

record request_body =
  model :: string
  temperature :: int
  logprobs :: bool
  top_logprobs :: nat
  response_format :: string
  messages :: "message list"

record task =
  custom_id :: string
  http_method :: string
  url :: string
  body :: request_body

text \<open>
  A dataset file: one without read permission, one that pandas cannot parse, or a table
  of named columns whose cells are texts, \<open>None\<close> for an empty cell.
\<close>

datatype dataset_file =
    NoReadPermission
  | Unparsable
  | Table "(string \<times> string option list) list"

text \<open>
  The world of the prepare stage: the dataset files and the prompt files by path, the
  batch files written (the tasks of each, in order), and
  failed\_experiments/failed\_prepare\_exp.txt.
\<close>

record prep_world =
  datasets :: "string \<Rightarrow> dataset_file option"
  prompts :: "string \<Rightarrow> string option"
  jsonl_files :: "string \<Rightarrow> task list option"
  failed_prepare :: "string list option"

type_synonym config = "string \<Rightarrow> string option"



definition load_prompt_from_file :: "string \<Rightarrow> string \<Rightarrow> prep_world \<Rightarrow> py_error + string" where
  "load_prompt_from_file prompt_file experiment_path w =
     (case prompts w (os_path_join (prompts_dir experiment_path) prompt_file) of
        None \<Rightarrow> Inl FileNotFoundError
      | Some text \<Rightarrow>
          (let prompt_content = strip text
           in if prompt_content = [] then Inl ValueError else Inr prompt_content))"

text \<open>The default of \<^verbatim>\<open>config.get('prompt_key', ...)\<close>, with its two accented letters.\<close>

definition default_prompt_key :: string where
  "default_prompt_key = ''[insertar expresi'' @ [CHR 0xF3] @ ''n aqu'' @ [CHR 0xED] @ '']''"

definition prompt_key_of :: "string \<Rightarrow> config \<Rightarrow> string" where
  "prompt_key_of prompt_template cfg =
     (case search_placeholder prompt_template of
        Some group1 \<Rightarrow> ''['' @ group1 @ '']''
      | None \<Rightarrow> (case cfg ''prompt_key'' of Some k \<Rightarrow> k | None \<Rightarrow> default_prompt_key))"

definition render_prompt :: "string \<Rightarrow> string \<Rightarrow> string \<Rightarrow> string" where
  "render_prompt prompt_template prompt_key expression =
     str_replace prompt_template prompt_key (strip expression)"

definition make_task :: "string \<Rightarrow> string \<Rightarrow> nat \<Rightarrow> string \<Rightarrow> task" where
  "make_task experiment model_name counter prompt_content =
     \<lparr>custom_id = experiment @ ''_task_'' @ str_nat counter,
      http_method = ''POST'',
      url = ''/v1/chat/completions'',
      body = \<lparr>model = model_name, temperature = 0, logprobs = True, top_logprobs = 10,
               response_format = ''text'',
               messages = [\<lparr>role = ''user'', content = prompt_content\<rparr>]\<rparr>\<rparr>"

definition create_openai_tasks ::
  "string list \<Rightarrow> config \<Rightarrow> string \<Rightarrow> string \<Rightarrow> prep_world \<Rightarrow> py_error + task list" where
  "create_openai_tasks word_list cfg experiment experiment_path w =
     (let prompt_file = (case cfg ''prompt'' of Some f \<Rightarrow> f | None \<Rightarrow> [])
      in if prompt_file = [] then Inl ValueError
         else
           (case load_prompt_from_file prompt_file experiment_path w of
              Inl e \<Rightarrow> Inl e
            | Inr prompt_template \<Rightarrow>
                (let model_name =
                       (case cfg ''model_name'' of Some m \<Rightarrow> m | None \<Rightarrow> ''gpt-4o-mini'');
                     prompt_key = prompt_key_of prompt_template cfg
                 in Inr (map (\<lambda>(counter, expression).
                                make_task experiment model_name counter
                                  (render_prompt prompt_template prompt_key expression))
                           (enumerate 1 word_list)))))"

section \<open>prepare\_experiment.py: batch files\<close>

text \<open>
  \<^verbatim>\<open>[tasks[i:i + chunk_size] for i in range(0, len(tasks), chunk_size)]\<close> for a positive
  chunk size; the range holds the multiples of the chunk size below the length.
\<close>

definition range_step :: "nat \<Rightarrow> nat \<Rightarrow> nat list" where
  "range_step stop step = map (\<lambda>k. k * step) [0 ..< (stop + step - 1) div step]"

definition task_chunks :: "nat \<Rightarrow> 'a list \<Rightarrow> 'a list list" where
  "task_chunks chunk_size tasks =
     map (\<lambda>i. take chunk_size (drop i tasks)) (range_step (length tasks) chunk_size)"

definition batch_name :: "string \<Rightarrow> nat \<Rightarrow> string \<Rightarrow> string" where
  "batch_name experiment index date_string =
     experiment @ ''_batch_'' @ str_nat index @ ''_'' @ date_string @ ''.jsonl''"

text \<open>
  One turn of the loop over the numbered chunks: the chunk is written to its file and
  the file's name is appended to the list the function returns.
\<close>

definition write_batch ::
  "string \<Rightarrow> string \<Rightarrow> string \<Rightarrow> nat \<times> task list \<Rightarrow> string list \<times> prep_world
     \<Rightarrow> string list \<times> prep_world" where
  "write_batch experiment experiment_path date_string numbered acc =
     (let name = batch_name experiment (fst numbered) date_string;
          batch_path = os_path_join (batches_dir experiment_path) name;
          w = snd acc
      in (fst acc @ [name],
          w\<lparr>jsonl_files := (jsonl_files w)(batch_path \<mapsto> snd numbered)\<rparr>))"

text \<open>
  \<^verbatim>\<open>create_batch_files\<close> with \<^verbatim>\<open>chunk_size\<close> at its default 50000, as its one caller
  leaves it.
\<close>

definition chunk_size_default :: nat where
  "chunk_size_default = 50000"

definition create_batch_files ::
  "task list \<Rightarrow> string \<Rightarrow> string \<Rightarrow> string \<Rightarrow> prep_world \<Rightarrow> string list \<times> prep_world" where
  "create_batch_files tasks experiment experiment_path date_string w =
     fold (write_batch experiment experiment_path date_string)
       (enumerate 0 (task_chunks chunk_size_default tasks)) ([], w)"

section \<open>prepare\_experiment.py: experiments and their registry\<close>

definition load_failed_experiments :: "prep_world \<Rightarrow> string list" where
  "load_failed_experiments w =
     (case failed_prepare w of None \<Rightarrow> [] | Some file_lines \<Rightarrow> read_names file_lines)"

definition save_failed_experiments :: "string list \<Rightarrow> prep_world \<Rightarrow> prep_world" where
  "save_failed_experiments failed_list w =
     (if failed_list = [] then w\<lparr>failed_prepare := None\<rparr>
      else w\<lparr>failed_prepare := Some failed_list\<rparr>)"

definition update_failed_experiments :: "string \<Rightarrow> bool \<Rightarrow> prep_world \<Rightarrow> prep_world" where
  "update_failed_experiments experiment success w =
     (let failed_experiments = load_failed_experiments w
      in if success \<and> experiment \<in> set failed_experiments
         then save_failed_experiments (remove1 experiment failed_experiments) w
         else if \<not> success \<and> experiment \<notin> set failed_experiments
         then save_failed_experiments (failed_experiments @ [experiment]) w
         else save_failed_experiments failed_experiments w)"






section \<open>generateResults.py: the expression of a prompt\<close>

text \<open>
  \<^verbatim>\<open>re.search(pattern, text, re.IGNORECASE)\<close> of \<^verbatim>\<open>extract_word_input\<close>, giving
  group 1 of the leftmost match: the pattern is the label \<open>La expresi\'on es:\<close> (with
  the accented letter, character 243), then \<^verbatim>\<open>\s*(.+?)\.\<close>.
  The label is compared letter by letter without regard to case;
  \<^verbatim>\<open>\s*\<close> takes the longest run of white space first and gives characters back one
  by one while the rest fails; the group takes the fewest characters, at least one and
  none a line feed, that a full stop follows.
\<close>

definition lower_char :: "char \<Rightarrow> char" where
  "lower_char c =
     (let n = of_char c :: nat
      in if (65 \<le> n \<and> n \<le> 90) \<or> (192 \<le> n \<and> n \<le> 222 \<and> n \<noteq> 215) then char_of (n + 32) else c)"

definition expression_label :: string where
  "expression_label = ''La expresi'' @ [CHR 0xF3] @ ''n es:''"

definition matches_label :: "string \<Rightarrow> bool" where
  "matches_label text =
     (length expression_label \<le> length text
      \<and> map lower_char (take (length expression_label) text) = map lower_char expression_label)"

fun lazy_until_dot :: "string \<Rightarrow> string \<Rightarrow> string option" where
  "lazy_until_dot taken [] = None"
| "lazy_until_dot taken (c # cs) =
     (if c = CHR ''.'' then Some taken
      else if c = CHR 0x0A then None
      else lazy_until_dot (taken @ [c]) cs)"

definition group_then_dot :: "string \<Rightarrow> string option" where
  "group_then_dot s =
     (case s of
        [] \<Rightarrow> None
      | c # cs \<Rightarrow> if c = CHR 0x0A then None else lazy_until_dot [c] cs)"

fun after_label :: "nat \<Rightarrow> string \<Rightarrow> string option" where
  "after_label 0 s = group_then_dot s"
| "after_label (Suc k) s =
     (case group_then_dot (drop (Suc k) s) of
        Some g \<Rightarrow> Some g
      | None \<Rightarrow> after_label k s)"

fun search_expression :: "string \<Rightarrow> string option" where
  "search_expression [] = None"
| "search_expression (c # cs) =
     (if matches_label (c # cs)
      then (let rest = drop (length expression_label) (c # cs)
            in case after_label (length (takeWhile isspace rest)) rest of
                 Some g \<Rightarrow> Some g
               | None \<Rightarrow> search_expression cs)
      else search_expression cs)"

text \<open>
  The quotes that \<^verbatim>\<open>extract_word_input\<close> strips: the double quote and the apostrophe
  (the low double quote of the source has no code point below 256).
\<close>

definition quote_chars :: string where
  "quote_chars = [CHR 0x22, CHR 0x27]"

definition extract_word_input :: "string \<Rightarrow> string option" where
  "extract_word_input text =
     (case search_expression text of
        Some g \<Rightarrow> Some (strip_chars quote_chars (strip g))
      | None \<Rightarrow> None)"

section \<open>generateResults.py: the weighted sum\<close>











section \<open>The words of the specification\<close>








text \<open>The job ids of the records in the table.\<close>

definition tracked_ids :: "world \<Rightarrow> string set" where
  "tracked_ids w = batch_id ` set (rows (load_batch_tracking w))"

section \<open>Properties of the tracking store\<close>

lemma load_after_save: "load_batch_tracking (save_batch_tracking df w) = df"
  by (simp add: load_batch_tracking_def save_batch_tracking_def read_excel_def)

lemma read_chunks_all: "read_chunks fed rest = fed @ rest"
proof (induction fed rest rule: read_chunks.induct)
  case (1 fed rest)
  show ?case
  proof (cases "take 8192 rest = []")
    case True
    then have "rest = []" by (cases rest) simp_all
    then show ?thesis by (subst read_chunks.simps) simp
  next
    case False
    then have "read_chunks fed rest = read_chunks (fed @ take 8192 rest) (drop 8192 rest)"
      by (subst read_chunks.simps) (simp add: Let_def)
    also have "\<dots> = (fed @ take 8192 rest) @ drop 8192 rest"
      using "1.IH" [OF refl False] .
    finally show ?thesis by simp
  qed
qed

lemma get_file_hash_content:
  "files w (full_path p f w) = Some c \<Longrightarrow> get_file_hash md5 p f w = Inr (md5 c)"
  by (simp add: get_file_hash_def read_chunks_all)

lemma batches_to_send_loop_filter:
  assumes "\<forall>f \<in> set fs. files w (full_path p f w) = Some (bytes_of f)"
  shows "batches_to_send_loop md5 p w ex fs acc =
           Inr (acc @ filter (\<lambda>f. \<not> (\<exists>r \<in> set ex. batch_file r = f \<and> file_hash r = md5 (bytes_of f))) fs)"
  using assms
proof (induction fs arbitrary: acc)
  case Nil
  then show ?case by simp
next
  case (Cons f fs)
  have h: "get_file_hash md5 p f w = Inr (md5 (bytes_of f))"
    using Cons.prems by (simp add: get_file_hash_content)
  have rest: "\<forall>f \<in> set fs. files w (full_path p f w) = Some (bytes_of f)"
    using Cons.prems by simp
  show ?case
    by (simp add: h Cons.IH [OF rest] filter_empty_conv)
qed



text \<open>
  Once a file is tracked by \<^verbatim>\<open>add_batch_to_tracking\<close> and its content stays as it was,
  the dedup check does not return it again.
\<close>

lemma tracked_file_not_sent_again:
  assumes "\<forall>f \<in> set batch_files. files w (full_path p f w) = Some (bytes_of f)"
    and "file \<in> set batch_files"
  shows "\<exists>w' sent. add_batch_to_tracking md5 now p name file job w = Inr w'
           \<and> get_batches_to_send md5 p name batch_files w' = Inr sent
           \<and> file \<notin> set sent"
proof -
  let ?row = "\<lparr>experiment_name = name, batch_file = file, batch_id = job,
                status = ''submitted'', timestamp = now, file_hash = md5 (bytes_of file)\<rparr>"
  let ?df = "load_batch_tracking w"
  let ?w' = "save_batch_tracking (?df\<lparr>rows := rows ?df @ [?row]\<rparr>) w"
  have h: "get_file_hash md5 p file w = Inr (md5 (bytes_of file))"
    using assms by (simp add: get_file_hash_content)
  have add: "add_batch_to_tracking md5 now p name file job w = Inr ?w'"
    by (simp add: add_batch_to_tracking_def h Let_def)
  have same: "\<forall>f \<in> set batch_files. files ?w' (full_path p f ?w') = Some (bytes_of f)"
    using assms(1) by (simp add: save_batch_tracking_def full_path_def)
  have sent: "get_batches_to_send md5 p name batch_files ?w' =
      Inr (filter (\<lambda>f. \<not> (\<exists>r \<in> set (filter (\<lambda>r. experiment_name r = name)
                                         (rows ?df @ [?row])).
                            batch_file r = f \<and> file_hash r = md5 (bytes_of f)))
             batch_files)"
    unfolding get_batches_to_send_def Let_def
    by (simp add: batches_to_send_loop_filter [OF same] load_after_save)
  show ?thesis
    using add sent by auto
qed

text \<open>
  Claim C7. \<^verbatim>\<open>load_batch_tracking\<close> returns the empty table with the six tracking
  columns when the tracking file does not exist and when reading it raises; the
  exception of the read is caught inside, so the load itself returns a table.
\<close>

theorem load_batch_tracking_degrades:
  "tracking w = Missing \<or> (\<exists>e. read_excel (tracking w) = Inl e) \<Longrightarrow>
     load_batch_tracking w =
       \<lparr>columns = [''experiment_name'', ''batch_file'', ''batch_id'', ''status'',
                    ''timestamp'', ''file_hash''],
        rows = []\<rparr>"
  by (auto simp: load_batch_tracking_def empty_tracking_def tracking_columns_def)

theorem load_batch_tracking_degrades_witness:
  "read_excel (tracking \<lparr>files = Map.empty, tracking = Unreadable, failed_execute = None\<rparr>)
     = Inl ValueError
   \<and> load_batch_tracking \<lparr>files = Map.empty, tracking = Unreadable, failed_execute = None\<rparr> =
       \<lparr>columns = [''experiment_name'', ''batch_file'', ''batch_id'', ''status'',
                    ''timestamp'', ''file_hash''],
        rows = []\<rparr>"
  using load_batch_tracking_degrades
    [of "\<lparr>files = Map.empty, tracking = Unreadable, failed_execute = None\<rparr>"]
  by (simp add: read_excel_def)

section \<open>Text of the registries\<close>

lemma dropWhile_unchanged: "xs = [] \<or> \<not> P (hd xs) \<Longrightarrow> dropWhile P xs = xs"
  by (cases xs) auto

lemma trim_hd:
  assumes "rev (dropWhile P (rev (dropWhile P s))) \<noteq> []"
  shows "\<not> P (hd (rev (dropWhile P (rev (dropWhile P s)))))"
proof -
  define t where "t = dropWhile P s"
  define u where "u = dropWhile P (rev t)"
  have "rev t = takeWhile P (rev t) @ u"
    by (simp add: u_def)
  then have "rev (rev t) = rev (takeWhile P (rev t) @ u)"
    by simp
  then have t: "t = rev u @ rev (takeWhile P (rev t))"
    by simp
  have ne: "rev u \<noteq> []"
    using assms by (simp add: t_def u_def)
  then have "hd t = hd (rev u)"
    using t by (metis hd_append2)
  moreover have "t \<noteq> []"
    using t ne by auto
  then have "\<not> P (hd t)"
    unfolding t_def by (rule hd_dropWhile)
  ultimately show ?thesis
    by (simp add: t_def u_def)
qed

lemma trim_last:
  assumes "rev (dropWhile P (rev (dropWhile P s))) \<noteq> []"
  shows "\<not> P (last (rev (dropWhile P (rev (dropWhile P s)))))"
proof -
  have "dropWhile P (rev (dropWhile P s)) \<noteq> []"
    using assms by simp
  then have "\<not> P (hd (dropWhile P (rev (dropWhile P s))))"
    by (rule hd_dropWhile)
  then show ?thesis
    using assms by (simp add: last_rev)
qed



lemma strip_fixed:
  "strip s = s \<longleftrightarrow> (s = [] \<or> (\<not> isspace (hd s) \<and> \<not> isspace (last s)))"
proof
  assume h: "strip s = s"
  show "s = [] \<or> (\<not> isspace (hd s) \<and> \<not> isspace (last s))"
  proof (cases "s = []")
    case False
    then have "strip s \<noteq> []" using h by simp
    then have "\<not> isspace (hd (strip s)) \<and> \<not> isspace (last (strip s))"
      unfolding strip_def using trim_hd [of isspace s] trim_last [of isspace s] by blast
    then show ?thesis using h by simp
  qed simp
next
  assume h: "s = [] \<or> (\<not> isspace (hd s) \<and> \<not> isspace (last s))"
  show "strip s = s"
  proof (cases "s = []")
    case True
    then show ?thesis by (simp add: strip_def)
  next
    case False
    then have a: "dropWhile isspace s = s" using h by (intro dropWhile_unchanged) blast
    have "dropWhile isspace (rev s) = rev s"
      using h False by (intro dropWhile_unchanged) (simp add: hd_rev)
    then show ?thesis by (simp add: strip_def a)
  qed
qed




section \<open>What one step of the pass changes\<close>

lemma load_files_upd [simp]: "load_batch_tracking (w\<lparr>files := x\<rparr>) = load_batch_tracking w"
  by (simp add: load_batch_tracking_def)

lemma load_failed_upd [simp]:
  "load_batch_tracking (w\<lparr>failed_execute := x\<rparr>) = load_batch_tracking w"
  by (simp add: load_batch_tracking_def)

lemma rows_update_batch_status:
  "rows (load_batch_tracking (update_batch_status job s w)) =
     map (\<lambda>r. if batch_id r = job then r\<lparr>status := s\<rparr> else r) (rows (load_batch_tracking w))"
  by (simp add: update_batch_status_def load_after_save Let_def)

lemma rows_remove_batch:
  "rows (load_batch_tracking (remove_batch_from_tracking job w)) =
     filter (\<lambda>r. batch_id r \<noteq> job) (rows (load_batch_tracking w))"
  by (simp add: remove_batch_from_tracking_def load_after_save Let_def)

lemma load_add_failed [simp]:
  "load_batch_tracking (add_failed_experiment_to_list e w) = load_batch_tracking w"
  by (simp add: add_failed_experiment_to_list_def Let_def)

lemma load_remove_failed [simp]:
  "load_batch_tracking (remove_experiment_from_failed_list e w) = load_batch_tracking w"
  by (simp add: remove_experiment_from_failed_list_def Let_def split: option.splits)

lemma ids_update [simp]: "tracked_ids (update_batch_status job s w) = tracked_ids w"
proof -
  have "(\<lambda>r. batch_id (if batch_id r = job then r\<lparr>status := s\<rparr> else r)) = batch_id"
    by (rule ext) simp
  then have "(\<lambda>r. batch_id (if batch_id r = job then r\<lparr>status := s\<rparr> else r)) `
               set (rows (load_batch_tracking w)) = batch_id ` set (rows (load_batch_tracking w))"
    by (rule arg_cong)
  then show ?thesis
    by (simp only: tracked_ids_def rows_update_batch_status set_map image_image)
qed

lemma ids_remove [simp]: "tracked_ids (remove_batch_from_tracking job w) = tracked_ids w - {job}"
  by (auto simp: tracked_ids_def rows_remove_batch)

lemma ids_add_failed [simp]: "tracked_ids (add_failed_experiment_to_list e w) = tracked_ids w"
  by (simp add: tracked_ids_def)

lemma ids_remove_failed [simp]: "tracked_ids (remove_experiment_from_failed_list e w) = tracked_ids w"
  by (simp add: tracked_ids_def)

lemma ids_files_upd [simp]: "tracked_ids (w\<lparr>files := x\<rparr>) = tracked_ids w"
  by (simp add: tracked_ids_def)




text \<open>The pass writes result files and never deletes one.\<close>

lemma files_update [simp]: "files (update_batch_status job s w) = files w"
  by (simp add: update_batch_status_def save_batch_tracking_def Let_def)

lemma files_remove [simp]: "files (remove_batch_from_tracking job w) = files w"
  by (simp add: remove_batch_from_tracking_def save_batch_tracking_def Let_def)

lemma files_add_failed [simp]: "files (add_failed_experiment_to_list e w) = files w"
  by (simp add: add_failed_experiment_to_list_def Let_def)

lemma files_remove_failed [simp]: "files (remove_experiment_from_failed_list e w) = files w"
  by (simp add: remove_experiment_from_failed_list_def Let_def split: option.splits)



text \<open>The registry is touched only by its own two operations.\<close>

lemma failed_update [simp]: "failed_execute (update_batch_status job s w) = failed_execute w"
  by (simp add: update_batch_status_def save_batch_tracking_def Let_def)

lemma failed_remove [simp]: "failed_execute (remove_batch_from_tracking job w) = failed_execute w"
  by (simp add: remove_batch_from_tracking_def save_batch_tracking_def Let_def)





lemmas pass_eval = check_and_download_openai_batches_def pending_batches_def check_row_def
  update_batch_status_def remove_batch_from_tracking_def save_failed_experiment_info_def
  add_failed_experiment_to_list_def get_failed_experiments_list_def load_batch_tracking_def
  save_batch_tracking_def read_excel_def read_names_def strip_def isspace_def Let_def
  download_completed_def remove_experiment_from_failed_list_def

section \<open>The terminal transitions of the pass\<close>










lemma cleanup_tracking:
  "tracking (snd (cleanup_empty_tracking_file v)) =
     (if rows (load_batch_tracking v) = [] then Missing else tracking v)"
  by (auto simp: cleanup_empty_tracking_file_def Let_def load_batch_tracking_def
      empty_tracking_def)

text \<open>
  Claim C8, amended. When the tracking file exists and its table has a row, the poller
  runs the pass and then the cleanup: the file is removed if the table has no row after
  the pass, and is kept as the pass left it otherwise.
\<close>

theorem tracking_file_removed_after_pass:
  assumes "tracking w \<noteq> Missing" and "rows (load_batch_tracking w) \<noteq> []"
  shows "let pass = check_and_download_openai_batches login p d (load_batch_tracking w) w;
             final = check_and_download_pending_batches login p d w
         in (rows (load_batch_tracking pass) = [] \<longrightarrow> tracking final = Missing)
          \<and> (rows (load_batch_tracking pass) \<noteq> [] \<longrightarrow>
               tracking final = tracking pass \<and> tracking final \<noteq> Missing)"
proof -
  have "check_and_download_pending_batches login p d w =
          snd (cleanup_empty_tracking_file
                 (check_and_download_openai_batches login p d (load_batch_tracking w) w))"
    using assms by (simp add: check_and_download_pending_batches_def Let_def)
  moreover have "rows (load_batch_tracking v) \<noteq> [] \<Longrightarrow> tracking v \<noteq> Missing" for v
    by (auto simp: load_batch_tracking_def empty_tracking_def)
  ultimately show ?thesis
    by (auto simp: Let_def cleanup_tracking)
qed

theorem tracking_file_removed_after_pass_witness:
  "let api = \<lparr>batches_retrieve = (\<lambda>job. if job = ''j0''
                  then Inr \<lparr>job_status = ''completed'', output_file_id = ''out''\<rparr>
                  else Inr \<lparr>job_status = ''in_progress'', output_file_id = ''''\<rparr>),
              files_content = (\<lambda>f. Inr ''{}'')\<rparr>;
       r0 = \<lparr>experiment_name = ''e1'', batch_file = ''b0.jsonl'', batch_id = ''j0'',
              status = ''in_progress'', timestamp = ''t'', file_hash = ''h''\<rparr>;
       r1 = \<lparr>experiment_name = ''e1'', batch_file = ''b1.jsonl'', batch_id = ''j1'',
              status = ''in_progress'', timestamp = ''t'', file_hash = ''h''\<rparr>;
       one = \<lparr>files = Map.empty, tracking = Sheet \<lparr>columns = tracking_columns, rows = [r0]\<rparr>,
              failed_execute = None\<rparr>;
       two = \<lparr>files = Map.empty, tracking = Sheet \<lparr>columns = tracking_columns, rows = [r0, r1]\<rparr>,
              failed_execute = None\<rparr>
   in tracking (check_and_download_pending_batches (Inr api) ''exp'' ''2025-01-01-00-00'' one)
        = Missing
      \<and> tracking (check_and_download_pending_batches (Inr api) ''exp'' ''2025-01-01-00-00'' two)
        = Sheet \<lparr>columns = tracking_columns, rows = [r1]\<rparr>"
proof -
  let ?api = "\<lparr>batches_retrieve = (\<lambda>job. if job = ''j0''
                  then Inr \<lparr>job_status = ''completed'', output_file_id = ''out''\<rparr>
                  else Inr \<lparr>job_status = ''in_progress'', output_file_id = ''''\<rparr>),
              files_content = (\<lambda>f. Inr ''{}'')\<rparr>"
  let ?r0 = "\<lparr>experiment_name = ''e1'', batch_file = ''b0.jsonl'', batch_id = ''j0'',
              status = ''in_progress'', timestamp = ''t'', file_hash = ''h''\<rparr>"
  let ?r1 = "\<lparr>experiment_name = ''e1'', batch_file = ''b1.jsonl'', batch_id = ''j1'',
              status = ''in_progress'', timestamp = ''t'', file_hash = ''h''\<rparr>"
  let ?one = "\<lparr>files = Map.empty, tracking = Sheet \<lparr>columns = tracking_columns, rows = [?r0]\<rparr>,
              failed_execute = None\<rparr>"
  let ?two = "\<lparr>files = Map.empty, tracking = Sheet \<lparr>columns = tracking_columns, rows = [?r0, ?r1]\<rparr>,
              failed_execute = None\<rparr>"
  have a: "tracking ?one \<noteq> Missing" "rows (load_batch_tracking ?one) \<noteq> []"
    by (simp_all add: load_batch_tracking_def read_excel_def)
  have b: "tracking ?two \<noteq> Missing" "rows (load_batch_tracking ?two) \<noteq> []"
    by (simp_all add: load_batch_tracking_def read_excel_def)
  have p1: "tracking (check_and_download_openai_batches (Inr ?api) ''exp'' ''2025-01-01-00-00''
              \<lparr>columns = tracking_columns, rows = [?r0]\<rparr> ?one) = Sheet \<lparr>columns = tracking_columns, rows = []\<rparr>"
    by (simp add: pass_eval)
  have p2: "tracking (check_and_download_openai_batches (Inr ?api) ''exp'' ''2025-01-01-00-00''
              \<lparr>columns = tracking_columns, rows = [?r0, ?r1]\<rparr> ?two) = Sheet \<lparr>columns = tracking_columns, rows = [?r1]\<rparr>"
    by (simp add: pass_eval)
  show ?thesis
    using tracking_file_removed_after_pass [OF a, of "Inr ?api" "''exp''" "''2025-01-01-00-00''"]
      tracking_file_removed_after_pass [OF b, of "Inr ?api" "''exp''" "''2025-01-01-00-00''"]
    by (simp add: Let_def p1 p2 load_batch_tracking_def read_excel_def)
qed

text \<open>
  The claim as written fails: when the stored table is already empty the poller returns
  before the cleanup, and the file with zero records stays.
\<close>

theorem empty_tracking_file_left_in_place:
  "rows (load_batch_tracking
      (check_and_download_pending_batches
         (Inr \<lparr>batches_retrieve = (\<lambda>job. Inr \<lparr>job_status = ''completed'', output_file_id = ''out''\<rparr>),
               files_content = (\<lambda>f. Inr ''{}'')\<rparr>)
         ''exp'' ''2025-01-01-00-00''
         \<lparr>files = Map.empty, tracking = Sheet empty_tracking, failed_execute = None\<rparr>)) = []
   \<and> tracking
      (check_and_download_pending_batches
         (Inr \<lparr>batches_retrieve = (\<lambda>job. Inr \<lparr>job_status = ''completed'', output_file_id = ''out''\<rparr>),
               files_content = (\<lambda>f. Inr ''{}'')\<rparr>)
         ''exp'' ''2025-01-01-00-00''
         \<lparr>files = Map.empty, tracking = Sheet empty_tracking, failed_execute = None\<rparr>)
     = Sheet empty_tracking"
  by (simp add: check_and_download_pending_batches_def load_batch_tracking_def read_excel_def
      empty_tracking_def)

section \<open>Batch files\<close>

lemma str_nat_nonempty: "str_nat n \<noteq> []"
  by (subst str_nat.simps) simp

lemma digit_char_inj: "a < 10 \<Longrightarrow> b < 10 \<Longrightarrow> digit_char a = digit_char b \<Longrightarrow> a = b"
  by (simp add: digit_char_def char_of_eq_iff take_bit_eq_mod)

lemma str_nat_inj: "str_nat n = str_nat m \<Longrightarrow> n = m"
proof (induction n arbitrary: m rule: less_induct)
  case (less n)
  show ?case
  proof (cases "n < 10")
    case True
    show ?thesis
    proof (cases "m < 10")
      case m: True
      then show ?thesis
        using less.prems True digit_char_inj by (simp add: str_nat.simps [of n] str_nat.simps [of m])
    next
      case False
      then show ?thesis
        using less.prems True str_nat_nonempty [of "m div 10"]
        by (simp add: str_nat.simps [of n] str_nat.simps [of m])
    qed
  next
    case n: False
    show ?thesis
    proof (cases "m < 10")
      case True
      then show ?thesis
        using less.prems n str_nat_nonempty [of "n div 10"]
        by (simp add: str_nat.simps [of n] str_nat.simps [of m])
    next
      case False
      then have eq: "str_nat (n div 10) = str_nat (m div 10)"
        and d: "digit_char (n mod 10) = digit_char (m mod 10)"
        using less.prems n by (simp_all add: str_nat.simps [of n] str_nat.simps [of m])
      have "n div 10 < n" using n by simp
      then have "n div 10 = m div 10"
        using less.IH eq by blast
      moreover have "n mod 10 = m mod 10"
        using d by (intro digit_char_inj) simp_all
      ultimately show ?thesis
        by (metis div_mult_mod_eq)
    qed
  qed
qed

lemma concat_chunks_take:
  "concat (map (\<lambda>k. take n (drop (k * n) xs)) [0 ..< m]) = take (m * n) xs"
proof (induction m)
  case 0
  show ?case by simp
next
  case (Suc m)
  have "Suc m * n = m * n + n"
    by simp
  then have "take (Suc m * n) xs = take (m * n) xs @ take n (drop (m * n) xs)"
    by (simp only: take_add)
  then show ?case
    using Suc by simp
qed

lemma length_task_chunks: "length (task_chunks n xs) = (length xs + n - 1) div n"
  by (simp add: task_chunks_def range_step_def)

lemma nth_task_chunks:
  "i < length (task_chunks n xs) \<Longrightarrow> task_chunks n xs ! i = take n (drop (n * i) xs)"
  by (simp add: task_chunks_def range_step_def mult.commute)

lemma concat_task_chunks:
  assumes "0 < n"
  shows "concat (task_chunks n xs) = xs"
proof -
  have "length xs \<le> ((length xs + n - 1) div n) * n"
  proof -
    have "(length xs + n - 1) mod n < n" using assms by simp
    moreover have "((length xs + n - 1) div n) * n + (length xs + n - 1) mod n = length xs + n - 1"
      by simp
    ultimately show ?thesis by linarith
  qed
  moreover have "concat (task_chunks n xs) = take (((length xs + n - 1) div n) * n) xs"
    using concat_chunks_take [of n xs "(length xs + n - 1) div n"]
    by (simp add: task_chunks_def range_step_def comp_def)
  ultimately show ?thesis by simp
qed

lemma length_chunk:
  assumes "0 < n" and "i < length (task_chunks n xs)"
  shows "length (task_chunks n xs ! i) \<le> n"
    and "i + 1 < length (task_chunks n xs) \<Longrightarrow> length (task_chunks n xs ! i) = n"
proof -
  show "length (task_chunks n xs ! i) \<le> n"
    using assms(2) by (simp add: nth_task_chunks)
  assume "i + 1 < length (task_chunks n xs)"
  then have "i + 2 \<le> (length xs + n - 1) div n"
    by (simp add: length_task_chunks)
  then have "(i + 2) * n \<le> ((length xs + n - 1) div n) * n"
    by (rule mult_le_mono1)
  also have "\<dots> \<le> length xs + n - 1"
    by simp
  finally have "(i + 1) * n < length xs"
    using assms(1) by (simp add: algebra_simps)
  then have "n \<le> length xs - n * i"
    by (simp add: algebra_simps)
  then show "length (task_chunks n xs ! i) = n"
    using assms(2) by (simp add: nth_task_chunks)
qed

lemma fst_fold_write_batch:
  "fst (fold (write_batch e p d) numbered acc) =
     fst acc @ map (\<lambda>x. batch_name e (fst x) d) numbered"
  by (induction numbered arbitrary: acc) (simp_all add: write_batch_def Let_def)

lemma batch_path_inj:
  assumes "os_path_join (batches_dir p) (batch_name e i d) =
           os_path_join (batches_dir p) (batch_name e j d)"
  shows "i = j"
proof -
  have hd_eq: "hd (batch_name e i d) = hd (batch_name e j d)"
    by (cases e) (simp_all add: batch_name_def)
  have ne: "batch_name e i d \<noteq> []" "batch_name e j d \<noteq> []"
    by (simp_all add: batch_name_def)
  have "batch_name e i d = batch_name e j d"
    using assms hd_eq ne by (auto simp: os_path_join_def split: if_splits)
  then have "str_nat i @ (''_'' @ d @ ''.jsonl'') = str_nat j @ (''_'' @ d @ ''.jsonl'')"
    by (simp add: batch_name_def)
  then have "str_nat i = str_nat j"
    by (simp only: append_same_eq)
  then show ?thesis
    by (rule str_nat_inj)
qed

lemma jsonl_fold_write_batch:
  assumes "distinct (map fst numbered)" and "(i, c) \<in> set numbered"
  shows "jsonl_files (snd (fold (write_batch e p d) numbered acc))
           (os_path_join (batches_dir p) (batch_name e i d)) = Some c"
  using assms
proof (induction numbered rule: rev_induct)
  case Nil
  then show ?case by simp
next
  case (snoc x xs)
  have step: "jsonl_files (snd (fold (write_batch e p d) (xs @ [x]) acc)) =
      (jsonl_files (snd (fold (write_batch e p d) xs acc)))
        (os_path_join (batches_dir p) (batch_name e (fst x) d) \<mapsto> snd x)"
    by (simp add: write_batch_def Let_def)
  show ?case
  proof (cases "(i, c) = x")
    case True
    then show ?thesis
      unfolding step by auto
  next
    case False
    then have mem: "(i, c) \<in> set xs"
      using snoc.prems(2) by simp
    have "i \<noteq> fst x"
      using snoc.prems(1) mem by (auto simp: rev_image_eqI)
    then have "os_path_join (batches_dir p) (batch_name e i d) \<noteq>
               os_path_join (batches_dir p) (batch_name e (fst x) d)"
      using batch_path_inj by blast
    moreover have "jsonl_files (snd (fold (write_batch e p d) xs acc))
           (os_path_join (batches_dir p) (batch_name e i d)) = Some c"
      using snoc.IH snoc.prems(1) mem by simp
    ultimately show ?thesis
      unfolding step by simp
  qed
qed

lemma create_batch_files_names:
  "fst (create_batch_files tasks e p d w) =
     map (\<lambda>i. batch_name e i d) [0 ..< length (task_chunks chunk_size_default tasks)]"
proof -
  have "map (\<lambda>x. batch_name e (fst x) d) (enumerate 0 cs) =
          map (\<lambda>i. batch_name e i d) [0 ..< length cs]" for cs :: "task list list"
  proof -
    have "map (\<lambda>x. batch_name e (fst x) d) (enumerate 0 cs) =
            map (\<lambda>i. batch_name e i d) (map fst (enumerate 0 cs))"
      by (simp only: map_map comp_def)
    also have "\<dots> = map (\<lambda>i. batch_name e i d) [0 ..< length cs]"
      by (simp only: map_fst_enumerate) simp
    finally show ?thesis .
  qed
  then show ?thesis
    by (simp add: create_batch_files_def fst_fold_write_batch)
qed

lemma create_batch_files_written:
  assumes "i < length (task_chunks chunk_size_default tasks)"
  shows "jsonl_files (snd (create_batch_files tasks e p d w))
           (os_path_join (batches_dir p) (batch_name e i d)) =
         Some (task_chunks chunk_size_default tasks ! i)"
  unfolding create_batch_files_def
proof (rule jsonl_fold_write_batch)
  show "distinct (map fst (enumerate 0 (task_chunks chunk_size_default tasks)))"
    by simp
  show "(i, task_chunks chunk_size_default tasks ! i)
          \<in> set (enumerate 0 (task_chunks chunk_size_default tasks))"
    using assms by (simp add: in_set_enumerate_eq)
qed

text \<open>
  Claim C10. \<^verbatim>\<open>create_batch_files\<close> writes one file per chunk, named by the chunk's
  index: file \<open>i\<close> holds the tasks at positions \<open>50000 * i\<close> up to \<open>50000 * (i + 1)\<close> of
  the input, in their order; no chunk has more than 50000 tasks and every chunk but the
  last has exactly 50000; the chunks in index order, concatenated, are the task list.
\<close>

theorem create_batch_files_partition:
  "\<exists>chunks.
     fst (create_batch_files tasks e p d w) = map (\<lambda>i. batch_name e i d) [0 ..< length chunks]
     \<and> map (\<lambda>name. jsonl_files (snd (create_batch_files tasks e p d w))
                    (os_path_join (batches_dir p) name))
          (fst (create_batch_files tasks e p d w)) = map Some chunks
     \<and> (\<forall>i < length chunks.
           chunks ! i = take 50000 (drop (50000 * i) tasks)
           \<and> length (chunks ! i) \<le> 50000
           \<and> (i + 1 < length chunks \<longrightarrow> length (chunks ! i) = 50000))
     \<and> concat chunks = tasks"
proof -
  define chunks where "chunks = task_chunks chunk_size_default tasks"
  have pos: "0 < chunk_size_default"
    by (simp add: chunk_size_default_def)
  have a: "fst (create_batch_files tasks e p d w) =
             map (\<lambda>i. batch_name e i d) [0 ..< length chunks]"
    by (simp add: chunks_def create_batch_files_names)
  have b: "map (\<lambda>name. jsonl_files (snd (create_batch_files tasks e p d w))
                    (os_path_join (batches_dir p) name))
          (fst (create_batch_files tasks e p d w)) = map Some chunks"
    unfolding a
    by (rule nth_equalityI) (simp_all add: chunks_def create_batch_files_written)
  have c: "\<forall>i < length chunks.
           chunks ! i = take 50000 (drop (50000 * i) tasks)
           \<and> length (chunks ! i) \<le> 50000
           \<and> (i + 1 < length chunks \<longrightarrow> length (chunks ! i) = 50000)"
    using length_chunk [OF pos, of _ tasks] nth_task_chunks [of _ chunk_size_default tasks]
    unfolding chunks_def chunk_size_default_def by blast
  have d: "concat chunks = tasks"
    unfolding chunks_def by (rule concat_task_chunks [OF pos])
  show ?thesis
    using a b c d by blast
qed

lemma digit_char_zero: "digit_char 0 = CHR ''0''"
  by (simp add: digit_char_def char_of_def bit_simps)

theorem create_batch_files_partition_witness:
  "fst (create_batch_files
          [make_task ''e1'' ''m'' 1 ''uno'', make_task ''e1'' ''m'' 2 ''dos'']
          ''e1'' ''exp'' ''2025-01-01-00-00''
          \<lparr>datasets = Map.empty, prompts = Map.empty, jsonl_files = Map.empty,
           failed_prepare = None\<rparr>)
     = [''e1_batch_0_2025-01-01-00-00.jsonl'']
   \<and> jsonl_files (snd (create_batch_files
          [make_task ''e1'' ''m'' 1 ''uno'', make_task ''e1'' ''m'' 2 ''dos'']
          ''e1'' ''exp'' ''2025-01-01-00-00''
          \<lparr>datasets = Map.empty, prompts = Map.empty, jsonl_files = Map.empty,
           failed_prepare = None\<rparr>))
       ''exp/batches/e1_batch_0_2025-01-01-00-00.jsonl''
     = Some [make_task ''e1'' ''m'' 1 ''uno'', make_task ''e1'' ''m'' 2 ''dos'']"
  using create_batch_files_partition
    [where tasks = "[make_task ''e1'' ''m'' 1 ''uno'', make_task ''e1'' ''m'' 2 ''dos'']"
       and e = "''e1''" and d = "''2025-01-01-00-00''" and p = "''exp''"
       and w = "\<lparr>datasets = Map.empty, prompts = Map.empty, jsonl_files = Map.empty,
           failed_prepare = None\<rparr>"]
  by (simp add: create_batch_files_def task_chunks_def range_step_def chunk_size_default_def
      enumerate_eq_zip write_batch_def batch_name_def str_nat.simps [of 0] digit_char_zero
      batches_dir_def os_path_join_def Let_def)

section \<open>The placeholder of a prompt\<close>




lemmas text_eval = strip_def isspace_def str_replace_def render_prompt_def prompt_key_of_def
  replace_occurrences.simps load_prompt_from_file_def prompts_dir_def os_path_join_def
  create_openai_tasks_def make_task_def Let_def




text \<open>
  Claim C6. Rendering the template \<open>La expresi\'on es: [palabra].\<close> (the accented letter
  is the character 243) with the word \<open>correr\<close> and extracting from the rendered prompt
  gives \<open>correr\<close>.
\<close>

theorem render_then_extract_correr:
  "extract_word_input
     (render_prompt (''La expresi'' @ [CHR 0xF3] @ ''n es: [palabra].'')
        (prompt_key_of (''La expresi'' @ [CHR 0xF3] @ ''n es: [palabra].'') Map.empty)
        ''correr'')
   = Some ''correr''"
  by (simp add: text_eval extract_word_input_def matches_label_def expression_label_def
      lower_char_def group_then_dot_def quote_chars_def strip_chars_def)

section \<open>Experiments that miss their input\<close>






lemma update_failed_inputs [simp]:
  "datasets (update_failed_experiments n ok w) = datasets w"
  "prompts (update_failed_experiments n ok w) = prompts w"
  by (simp_all add: update_failed_experiments_def save_failed_experiments_def Let_def)












section \<open>The weighted sum over the digits 1 to 7\<close>










end
